theory Spec2Isabelle
  imports Complex_Main "HOL-Library.Product_Lexorder"
begin

section \<open>JavaScript strings and numbers used by the routes\<close>

text \<open>
  Strings are ASCII \<open>char\<close> lists. Numbers that the routes handle are integers
  (counters, millisecond timestamps, page numbers); the quotients the aggregation
  pipelines compute are exact rationals, an idealisation of the doubles of the
  database server.
\<close>

definition isWhiteSpace :: "char \<Rightarrow> bool" where
  "isWhiteSpace c = (c \<in> set [CHR 0x09, CHR 0x0A, CHR 0x0B, CHR 0x0C, CHR 0x0D, CHR 0x20])"

text \<open>\<open>String.prototype.toLowerCase\<close> on ASCII.\<close>

definition lowerChar :: "char \<Rightarrow> char" where
  "lowerChar c =
     (let n = (of_char c :: nat) in if 65 \<le> n \<and> n \<le> 90 then char_of (n + 32) else c)"

definition toLowerCase :: "string \<Rightarrow> string" where
  "toLowerCase s = map lowerChar s"

text \<open>\<open>String.prototype.trim\<close>.\<close>

definition trim :: "string \<Rightarrow> string" where
  "trim s = rev (dropWhile isWhiteSpace (rev (dropWhile isWhiteSpace s)))"

text \<open>\<open>s.startsWith(w)\<close> and \<open>s.includes(w)\<close>: \<open>w\<close> occurs in \<open>s\<close> as a
  contiguous block.\<close>

fun startsWith :: "string \<Rightarrow> string \<Rightarrow> bool" where
  "startsWith s [] = True"
| "startsWith [] (c # w) = False"
| "startsWith (d # s) (c # w) = (d = c \<and> startsWith s w)"

fun includesStr :: "string \<Rightarrow> string \<Rightarrow> bool" where
  "includesStr [] w = (w = [])"
| "includesStr (d # s) w = (startsWith (d # s) w \<or> includesStr s w)"

text \<open>\<open>s.split(/\s+/)\<close>: the fields between maximal runs of white space; a string
  that starts or ends with white space yields an empty first or last field.\<close>

fun split_ws :: "string \<Rightarrow> string list" where
  "split_ws [] = [[]]"
| "split_ws (c # cs) =
     (if isWhiteSpace c
      then (if cs \<noteq> [] \<and> isWhiteSpace (hd cs) then split_ws cs else [] # split_ws cs)
      else (case split_ws cs of w # ws \<Rightarrow> (c # w) # ws | [] \<Rightarrow> [[c]]))"

text \<open>\<open>words.join(sep)\<close>.\<close>

fun join :: "string \<Rightarrow> string list \<Rightarrow> string" where
  "join sep [] = []"
| "join sep [w] = w"
| "join sep (w # v # ws) = w @ sep @ join sep (v # ws)"

text \<open>The digit a character stands for in a radix, if any.\<close>

definition digitOf :: "nat \<Rightarrow> char \<Rightarrow> nat option" where
  "digitOf radix c =
     (let n = (of_char c :: nat);
          v = (if 48 \<le> n \<and> n \<le> 57 then Some (n - 48)
               else if 97 \<le> n \<and> n \<le> 122 then Some (n - 87)
               else if 65 \<le> n \<and> n \<le> 90 then Some (n - 55)
               else None)
      in case v of None \<Rightarrow> None | Some d \<Rightarrow> if d < radix then Some d else None)"













section \<open>utils/helpers.js\<close>



section \<open>The catalog (models/Meme.js) and the store\<close>

text \<open>
  A stored document. The first seven fields are the ones every route copies into its
  response; \<open>meme_id\<close> is the document's \<open>_id\<close>. Dates are milliseconds since the
  epoch. \<open>description\<close> is \<open>None\<close> when the document has no such field.
\<close>

record meme_view =
  meme_id :: string
  image_url :: string
  tags :: "string list"
  upvotes :: int
  downloads :: int
  description :: "string option"
  createdAt :: int

record meme = meme_view +
  cloudinary_id :: string
  metadata :: "int \<times> int \<times> string \<times> int"
  updatedAt :: int

text \<open>
  The collection is the list of its documents in natural order. The store's sorts are
  modelled as stable sorts of that list (the database leaves the order of documents
  with equal keys open). Every store call a handler makes is recorded, in order.
\<close>

datatype store_op = Connect | Find | CountDocuments | Aggregate | FindOneAndUpdate | FindById | Save

text \<open>A handler answers with \<open>res.json(body)\<close> (status 200) or with
  \<open>res.status(code).json({success: false, message})\<close>.\<close>

datatype 'a response = Json 'a | Status nat string

text \<open>
  \<open>new RegExp(pattern, 'i')\<close> is a parameter of the handlers that build one: it
  yields \<open>None\<close> when the constructor throws a SyntaxError and otherwise the test
  \<open>s \<mapsto> regex.test(s)\<close>.
\<close>

type_synonym regexp = "string \<Rightarrow> (string \<Rightarrow> bool) option"

text \<open>\<open>cursor.skip(n)\<close> rejects a negative count; \<open>cursor.limit(n)\<close> reads \<open>0\<close> as
  no limit and a negative count as its absolute value. The pipeline stages \<open>$skip\<close>
  and \<open>$limit\<close> reject a negative skip and a limit that is not positive.\<close>

definition cursor_skip :: "int \<Rightarrow> 'a list \<Rightarrow> 'a list option" where
  "cursor_skip n xs = (if n < 0 then None else Some (drop (nat n) xs))"

definition cursor_limit :: "int \<Rightarrow> 'a list \<Rightarrow> 'a list" where
  "cursor_limit n xs = (if n = 0 then xs else take (nat \<bar>n\<bar>) xs)"

definition stage_skip :: "int \<Rightarrow> 'a list \<Rightarrow> 'a list option" where
  "stage_skip n xs = (if n < 0 then None else Some (drop (nat n) xs))"

definition stage_limit :: "int \<Rightarrow> 'a list \<Rightarrow> 'a list option" where
  "stage_limit n xs = (if n \<le> 0 then None else Some (take (nat n) xs))"

record pagination =
  current :: int
  total :: "int option"
  count_of_page :: int
  totalItems :: int

text \<open>\<open>Math.ceil(total / limit)\<close>; \<open>None\<close> when the quotient is not finite.\<close>

definition totalPages :: "int \<Rightarrow> int \<Rightarrow> int option" where
  "totalPages n l = (if l = 0 then None else Some \<lceil>(of_int n :: rat) / of_int l\<rceil>)"

section \<open>routes/memes.js: GET /search\<close>

text \<open>
  routes/memes.js holds two copies of the router, one written against Mongoose and one
  against the database driver. The handlers of search, trending and popular tags have
  the same bodies in both, except that the driver-based copy calls \<open>connectToDB\<close>
  before its first query; the model follows the driver-based copy, and the store calls
  of the Mongoose-based copy are the same without \<open>Connect\<close>. The tag-suggestion
  handler exists in the driver-based copy only. The upvote handler differs between the
  copies and is modelled twice.

  The handlers are modelled for requests whose \<open>page\<close> and \<open>limit\<close> parameters, when
  present, are decimal integer literals (\<open>None\<close> is an absent parameter, which takes
  the handler's default); on them \<open>(page - 1) * limit\<close> and \<open>parseInt(limit)\<close> are
  integer arithmetic. The query \<open>q\<close> is an optional string. A failing store call
  throws, and the handler's \<open>catch\<close> answers with status 500; the failures modelled
  are the ones the request itself causes (a rejected skip or limit, a division by
  zero in a pipeline, a malformed pattern or identifier).
\<close>

definition searchWordsOf :: "string \<Rightarrow> string list" where
  "searchWordsOf q =
     filter (\<lambda>word. trim word \<noteq> [] \<and> 1 < length word) (split_ws (toLowerCase q))"

text \<open>The filter \<open>{$or: [{tags: {$regex}}, {description: {$regex}}]}\<close>: some element of
  the tag array matches, or the description does.\<close>

definition searchQuery :: "(string \<Rightarrow> bool) \<Rightarrow> 'a meme_scheme \<Rightarrow> bool" where
  "searchQuery combinedRegex m =
     (list_ex combinedRegex (tags m) \<or>
      (case description m of None \<Rightarrow> False | Some d \<Rightarrow> combinedRegex d))"

definition tagMatches :: "string list \<Rightarrow> 'a meme_view_scheme \<Rightarrow> int" where
  "tagMatches searchWords m =
     int (length (filter (\<lambda>tag.
        list_ex (\<lambda>word. includesStr (toLowerCase tag) (toLowerCase word)) searchWords)
        (tags m)))"

definition descriptionMatches :: "string list \<Rightarrow> 'a meme_view_scheme \<Rightarrow> int" where
  "descriptionMatches searchWords m =
     (case description m of
        None \<Rightarrow> 0
      | Some d \<Rightarrow>
          if d = [] then 0
          else int (length (filter (\<lambda>word.
                 includesStr (toLowerCase d) (toLowerCase word)) searchWords)))"

definition relevanceScore :: "string list \<Rightarrow> 'a meme_view_scheme \<Rightarrow> int" where
  "relevanceScore searchWords m =
     descriptionMatches searchWords m * 2 + tagMatches searchWords m"

record search_hit = meme_view +
  relevance :: int

definition memesWithRelevance :: "string list \<Rightarrow> 'a meme_scheme list \<Rightarrow> search_hit list" where
  "memesWithRelevance searchWords memes =
     map (\<lambda>m. \<lparr> meme_id = meme_id m, image_url = image_url m, tags = tags m,
                upvotes = upvotes m, downloads = downloads m,
                description = description m, createdAt = createdAt m,
                relevance = relevanceScore searchWords m \<rparr>) memes"

text \<open>The comparator of \<open>memesWithRelevance.sort\<close>: higher score first, then the
  later creation date; \<open>Array.prototype.sort\<close> is stable.\<close>

definition sortByRelevance :: "search_hit list \<Rightarrow> search_hit list" where
  "sortByRelevance hits = sort_key (\<lambda>h. (- relevance h, - createdAt h)) hits"

record search_body =
  body_searchQuery :: string
  searchWords :: "string list"
  memes :: "search_hit list"
  search_pagination :: pagination

definition search ::
  "regexp \<Rightarrow> 'a meme_scheme list \<Rightarrow> string option \<Rightarrow> int option \<Rightarrow> int option
     \<Rightarrow> search_body response \<times> store_op list" where
  "search rx db q p l =
     (case q of
        None \<Rightarrow> (Status 400 ''Search query is required'', [])
      | Some qs \<Rightarrow>
          if qs = [] then (Status 400 ''Search query is required'', [])
          else
            let ws = searchWordsOf qs in
            if ws = [] then (Status 400 ''Please provide valid search terms'', [])
            else
              let pg = (case p of None \<Rightarrow> 1 | Some n \<Rightarrow> n);
                  lmt = (case l of None \<Rightarrow> 20 | Some n \<Rightarrow> n);
                  skp = (pg - 1) * lmt
              in case rx (join ''|'' ws) of
                   None \<Rightarrow> (Status 500 ''Search failed'', [])
                 | Some combinedRegex \<Rightarrow>
                     (case cursor_skip skp
                             (sort_key (\<lambda>m. - createdAt m)
                                (filter (searchQuery combinedRegex) db)) of
                        None \<Rightarrow> (Status 500 ''Search failed'', [Connect, Find])
                      | Some rest \<Rightarrow>
                          let found = cursor_limit lmt rest;
                              n = int (length (filter (searchQuery combinedRegex) db))
                          in (Json \<lparr> body_searchQuery = qs, searchWords = ws,
                                     memes = sortByRelevance (memesWithRelevance ws found),
                                     search_pagination =
                                       \<lparr> current = pg, total = totalPages n lmt,
                                         count_of_page = int (length found),
                                         totalItems = n \<rparr> \<rparr>,
                              [Connect, Find, CountDocuments])))"

text \<open>
  A regular-expression engine for evaluating the handlers on plain words: the pattern
  is an alternation \<open>w1|w2|...\<close> of literal words, and the test is case-insensitive
  containment of one of them. It agrees with \<open>new RegExp(pattern, 'i')\<close> on patterns
  whose alternatives hold letters and digits only.
\<close>

fun split_bar :: "string \<Rightarrow> string list" where
  "split_bar [] = [[]]"
| "split_bar (c # cs) =
     (if c = CHR ''|'' then [] # split_bar cs
      else (case split_bar cs of w # ws \<Rightarrow> (c # w) # ws | [] \<Rightarrow> [[c]]))"

definition wordsTest :: "string \<Rightarrow> string \<Rightarrow> bool" where
  "wordsTest pattern s =
     list_ex (\<lambda>w. includesStr (toLowerCase s) (toLowerCase w)) (split_bar pattern)"

definition wordsRegExp :: regexp where
  "wordsRegExp pattern = Some (wordsTest pattern)"

section \<open>routes/memes.js: GET /trending\<close>

definition msPerDay :: int where
  "msPerDay = 1000 * 60 * 60 * 24"

text \<open>\<open>{$divide: [{$subtract: [now, '$createdAt']}, 1000 * 60 * 60 * 24]}\<close>.\<close>

definition daysBetween :: "int \<Rightarrow> int \<Rightarrow> rat" where
  "daysBetween now created = of_int (now - created) / of_int msPerDay"

text \<open>The \<open>trendingScore\<close> expression as a function of the counters and of the days
  since creation.\<close>

definition trendingScoreOf :: "int \<Rightarrow> int \<Rightarrow> rat \<Rightarrow> rat" where
  "trendingScoreOf ups downs days = of_int (ups * 2 + downs) / (days + 1)"

text \<open>\<open>$round\<close> to a number of decimal places; the server rounds a tie to the even
  neighbour.\<close>

definition mongoRound :: "rat \<Rightarrow> nat \<Rightarrow> rat" where
  "mongoRound x places =
     (let scale = (10 :: rat) ^ places;
          y = x * scale;
          f = \<lfloor>y\<rfloor>;
          r = y - of_int f;
          k = (if r < 1 / 2 then f else if 1 / 2 < r then f + 1
               else if even f then f else f + 1)
      in of_int k / scale)"

text \<open>
  The handler reads the clock once per \<open>new Date()\<close>: \<open>now1\<close> in the
  \<open>daysSinceCreation\<close> field, \<open>now2\<close> in the \<open>trendingScore\<close> field, \<open>now3\<close> in the
  counting pipeline; \<open>sevenDaysAgo\<close> is the date the handler computes first.
  \<open>$addFields\<close> yields each document with its two computed fields; \<open>$divide\<close> by
  zero fails the pipeline.
\<close>

definition addTrendingFields ::
  "int \<Rightarrow> int \<Rightarrow> 'a meme_scheme list \<Rightarrow> ('a meme_scheme \<times> rat \<times> rat) list option" where
  "addTrendingFields now1 now2 db =
     (if list_ex (\<lambda>m. daysBetween now2 (createdAt m) + 1 = 0) db then None
      else Some (map (\<lambda>m. (m, daysBetween now1 (createdAt m),
                   trendingScoreOf (upvotes m) (downloads m) (daysBetween now2 (createdAt m))))
                 db))"

record trending_hit = meme_view +
  trendingScore :: rat
  daysSinceCreation :: rat

definition projectTrending :: "('a meme_scheme \<times> rat \<times> rat) \<Rightarrow> trending_hit" where
  "projectTrending x =
     (case x of (m, days, score) \<Rightarrow>
        \<lparr> meme_id = meme_id m, image_url = image_url m, tags = tags m,
          upvotes = upvotes m, downloads = downloads m,
          description = description m, createdAt = createdAt m,
          trendingScore = mongoRound score 2, daysSinceCreation = mongoRound days 1 \<rparr>)"

definition trendingPipeline ::
  "int \<Rightarrow> int \<Rightarrow> int \<Rightarrow> int \<Rightarrow> 'a meme_scheme list \<Rightarrow> trending_hit list option" where
  "trendingPipeline now1 now2 skp lmt db =
     (case addTrendingFields now1 now2 db of
        None \<Rightarrow> None
      | Some docs \<Rightarrow>
          (case stage_skip skp
                  (sort_key (\<lambda>x. case x of (m, days, score) \<Rightarrow>
                                 (- score, - upvotes m, - createdAt m))
                     (filter (\<lambda>x. case x of (m, days, score) \<Rightarrow> days \<le> 30) docs)) of
             None \<Rightarrow> None
           | Some rest \<Rightarrow>
               (case stage_limit lmt rest of
                  None \<Rightarrow> None
                | Some kept \<Rightarrow> Some (map projectTrending kept))))"

text \<open>\<open>$unwind: '$tags'\<close> yields one document per element of each tag array;
  \<open>$group\<close> collects them by tag. The groups are listed in the order in which their
  tags first occur.\<close>

definition unwindTags :: "'a meme_scheme list \<Rightarrow> (string \<times> 'a meme_scheme) list" where
  "unwindTags db = concat (map (\<lambda>m. map (\<lambda>t. (t, m)) (tags m)) db)"

definition groupIds :: "(string \<times> 'b) list \<Rightarrow> string list" where
  "groupIds docs = rev (remdups (rev (map fst docs)))"

definition groupOf :: "string \<Rightarrow> (string \<times> 'b) list \<Rightarrow> 'b list" where
  "groupOf t docs = map snd (filter (\<lambda>d. fst d = t) docs)"

text \<open>The \<open>tagStats\<close> pipeline: per tag of the documents created since
  \<open>sevenDaysAgo\<close>, the number of documents and the average of
  \<open>2 * upvotes + downloads\<close>; the first tag by descending average, then count.\<close>

definition mostTrendingTagOf :: "int \<Rightarrow> 'a meme_scheme list \<Rightarrow> string option" where
  "mostTrendingTagOf sevenDaysAgo db =
     (let docs = unwindTags (filter (\<lambda>m. sevenDaysAgo \<le> createdAt m) db);
          stats = map (\<lambda>t. let g = groupOf t docs in
                     (t, int (length g),
                      (of_int (sum_list (map (\<lambda>m. upvotes m * 2 + downloads m) g)) :: rat)
                        / of_int (int (length g))))
                   (groupIds docs)
      in case sort_key (\<lambda>s. case s of (t, n, score) \<Rightarrow> (- score, - n)) stats of
           [] \<Rightarrow> None
         | s # rest \<Rightarrow> Some (fst s))"

record trending_body =
  trendingMemes :: "trending_hit list"
  mostTrendingTag :: "string option"
  trending_pagination :: pagination
  calculationPeriod :: string
  algorithm :: string

definition trending ::
  "int \<Rightarrow> int \<Rightarrow> int \<Rightarrow> int \<Rightarrow> 'a meme_scheme list \<Rightarrow> int option \<Rightarrow> int option
     \<Rightarrow> trending_body response \<times> store_op list" where
  "trending sevenDaysAgo now1 now2 now3 db p l =
     (let pg = (case p of None \<Rightarrow> 1 | Some n \<Rightarrow> n);
          lmt = (case l of None \<Rightarrow> 20 | Some n \<Rightarrow> n);
          skp = (pg - 1) * lmt
      in case trendingPipeline now1 now2 skp lmt db of
           None \<Rightarrow> (Status 500 ''Failed to get trending memes'', [Connect, Aggregate])
         | Some hits \<Rightarrow>
             let n = int (length (filter (\<lambda>m. daysBetween now3 (createdAt m) \<le> 30) db))
             in (Json \<lparr> trendingMemes = hits,
                        mostTrendingTag = mostTrendingTagOf sevenDaysAgo db,
                        trending_pagination =
                          \<lparr> current = pg, total = totalPages n lmt,
                            count_of_page = int (length hits), totalItems = n \<rparr>,
                        calculationPeriod = ''Last 30 days'',
                        algorithm =
                          ''Score = (upvotes * 2 + downloads) / (days_since_creation + 1)'' \<rparr>,
                 [Connect, Aggregate, Aggregate, Aggregate]))"

section \<open>routes/memes.js: GET /popular and GET /search-assist\<close>

record tag_stat =
  tag :: string
  count :: int
  totalUpvotes :: int
  totalDownloads :: int
  avgUpvotes :: rat

definition tagGroups :: "'a meme_scheme list \<Rightarrow> tag_stat list" where
  "tagGroups db =
     (let docs = unwindTags db
      in map (\<lambda>t. let g = groupOf t docs in
                \<lparr> tag = t, count = int (length g),
                  totalUpvotes = sum_list (map upvotes g),
                  totalDownloads = sum_list (map downloads g),
                  avgUpvotes = of_int (sum_list (map upvotes g)) / of_int (int (length g)) \<rparr>)
             (groupIds docs))"

definition popular ::
  "'a meme_scheme list \<Rightarrow> int option \<Rightarrow> tag_stat list response \<times> store_op list" where
  "popular db l =
     (let lmt = (case l of None \<Rightarrow> 30 | Some n \<Rightarrow> n)
      in case stage_limit lmt
                (sort_key (\<lambda>g. (- count g, - totalUpvotes g)) (tagGroups db)) of
           None \<Rightarrow> (Status 500 ''Failed to get popular tags'', [Connect, Aggregate])
         | Some kept \<Rightarrow>
             (Json (map (\<lambda>g. g\<lparr> avgUpvotes := mongoRound (avgUpvotes g) 2 \<rparr>) kept),
              [Connect, Aggregate]))"

definition search_assist ::
  "regexp \<Rightarrow> 'a meme_scheme list \<Rightarrow> string option \<Rightarrow> string list response \<times> store_op list" where
  "search_assist rx db q =
     (case q of
        None \<Rightarrow> (Json [], [])
      | Some qs \<Rightarrow>
          if qs = [] then (Json [], [])
          else
            (case rx (toLowerCase qs) of
               None \<Rightarrow> (Status 500 ''Search assist failed'', [])
             | Some searchRegex \<Rightarrow>
                 let docs = filter (\<lambda>d. searchRegex (fst d)) (unwindTags db);
                     groups = map (\<lambda>t. (t, int (length (groupOf t docs)))) (groupIds docs);
                     tagSuggestions = take 10 (sort_key (\<lambda>g. - snd g) groups)
                 in (Json (map fst tagSuggestions), [Connect, Aggregate])))"

section \<open>routes/memes.js: POST /update-upvote\<close>

text \<open>\<open>findOneAndUpdate(filter, update, {returnDocument: 'after'})\<close>: the first
  document the filter selects is replaced by its update; the call yields the updated
  document, or nothing when no document is selected.\<close>

fun findOneAndUpdate :: "('a \<Rightarrow> bool) \<Rightarrow> ('a \<Rightarrow> 'a) \<Rightarrow> 'a list \<Rightarrow> 'a option \<times> 'a list" where
  "findOneAndUpdate f u [] = (None, [])"
| "findOneAndUpdate f u (x # xs) =
     (if f x then (Some (u x), u x # xs)
      else (case findOneAndUpdate f u xs of (r, ys) \<Rightarrow> (r, x # ys)))"

record upvote_body =
  body_upvotes :: int
  memeId :: string

text \<open>
  The handler of the driver-based router. \<open>objectId\<close> is the \<open>ObjectId\<close> constructor:
  \<open>None\<close> when it throws on a malformed identifier. The driver's result carries the
  updated document in its \<open>value\<close> field, as the handler reads it. The model's result
  carries the response, the store calls and the collection after the call; \<open>now\<close> is
  the clock reading of \<open>new Date()\<close>.
\<close>

definition update_upvote ::
  "(string \<Rightarrow> string option) \<Rightarrow> int \<Rightarrow> 'a meme_scheme list \<Rightarrow> string option
     \<Rightarrow> upvote_body response \<times> store_op list \<times> 'a meme_scheme list" where
  "update_upvote objectId now db mid =
     (case mid of
        None \<Rightarrow> (Status 400 ''Meme ID is required'', [], db)
      | Some s \<Rightarrow>
          if s = [] then (Status 400 ''Meme ID is required'', [], db)
          else
            (case objectId s of
               None \<Rightarrow> (Status 500 ''Failed to update upvote'', [Connect], db)
             | Some oid \<Rightarrow>
                 (case findOneAndUpdate (\<lambda>m. meme_id m = oid)
                         (\<lambda>m. m\<lparr> upvotes := upvotes m + 1, updatedAt := now \<rparr>) db of
                    (None, db') \<Rightarrow>
                      (Status 404 ''Meme not found'', [Connect, FindOneAndUpdate], db')
                  | (Some v, db') \<Rightarrow>
                      (Json \<lparr> body_upvotes = upvotes v, memeId = meme_id v \<rparr>,
                       [Connect, FindOneAndUpdate], db'))))"

text \<open>
  The handler of the Mongoose-based router: \<open>findById\<close>, \<open>meme.upvotes += 1\<close>,
  \<open>meme.save()\<close>. Saving validates the changed path (\<open>upvotes\<close> has \<open>min: 0\<close>) and
  then writes the changed path and, the schema having \<open>timestamps\<close>, \<open>updatedAt\<close>.
\<close>

definition update_upvote_mongoose ::
  "(string \<Rightarrow> string option) \<Rightarrow> int \<Rightarrow> 'a meme_scheme list \<Rightarrow> string option
     \<Rightarrow> upvote_body response \<times> store_op list \<times> 'a meme_scheme list" where
  "update_upvote_mongoose objectId now db mid =
     (case mid of
        None \<Rightarrow> (Status 400 ''Meme ID is required'', [], db)
      | Some s \<Rightarrow>
          if s = [] then (Status 400 ''Meme ID is required'', [], db)
          else
            (case objectId s of
               None \<Rightarrow> (Status 500 ''Failed to update upvote'', [], db)
             | Some oid \<Rightarrow>
                 (case find (\<lambda>m. meme_id m = oid) db of
                    None \<Rightarrow> (Status 404 ''Meme not found'', [FindById], db)
                  | Some m \<Rightarrow>
                      let n = upvotes m + 1 in
                      if n < 0 then (Status 500 ''Failed to update upvote'', [FindById], db)
                      else (Json \<lparr> body_upvotes = n, memeId = meme_id m \<rparr>,
                            [FindById, Save],
                            snd (findOneAndUpdate (\<lambda>x. meme_id x = meme_id m)
                                   (\<lambda>x. x\<lparr> upvotes := n, updatedAt := now \<rparr>) db)))))"

section \<open>The specification's wording, and sample data\<close>

text \<open>
  The relevance score as the specification words it: twice the number of distinct
  tokens contained in the description, plus the number of distinct tokens contained in
  at least one tag.
\<close>

definition spec_relevanceScore :: "string list \<Rightarrow> 'a meme_view_scheme \<Rightarrow> int" where
  "spec_relevanceScore ws m =
     2 * int (length (filter (\<lambda>w.
           includesStr (toLowerCase (case description m of None \<Rightarrow> [] | Some d \<Rightarrow> d))
             (toLowerCase w)) (remdups ws)))
     + int (length (filter (\<lambda>w.
           list_ex (\<lambda>t. includesStr (toLowerCase t) (toLowerCase w)) (tags m)) (remdups ws)))"

text \<open>
  The page as the specification words it: the slice \<open>[skip, skip + limit)\<close> of all
  matching documents ranked by descending score, then descending creation date.
\<close>

definition spec_search_page ::
  "(string \<Rightarrow> bool) \<Rightarrow> string list \<Rightarrow> 'a meme_scheme list \<Rightarrow> int \<Rightarrow> int \<Rightarrow> search_hit list" where
  "spec_search_page combinedRegex ws db skp lmt =
     take (nat lmt) (drop (nat skp)
       (sortByRelevance (memesWithRelevance ws (filter (searchQuery combinedRegex) db))))"

text \<open>Sample documents, as the upload handler stores them.\<close>

definition sampleMeme ::
  "string \<Rightarrow> string list \<Rightarrow> string \<Rightarrow> int \<Rightarrow> int \<Rightarrow> int \<Rightarrow> meme" where
  "sampleMeme i ts d ups downs created =
     \<lparr> meme_id = i, image_url = ''https://res.cloudinary.com/neon/'' @ i, tags = ts,
       upvotes = ups, downloads = downs, description = Some d, createdAt = created,
       cloudinary_id = ''neon-meme-marketplace/'' @ i, metadata = (640, 480, ''png'', 2048),
       updatedAt = created \<rparr>"

text \<open>The two documents of the specification's search scenario; the second is the
  more recent one.\<close>

definition scenarioR1 :: meme where
  "scenarioR1 = sampleMeme ''64f1a2b3c4d5e6f7a8b9c0d1'' [''drake'', ''reaction''] ''pointing at choices'' 0 0 1000"

definition scenarioR2 :: meme where
  "scenarioR2 = sampleMeme ''64f1a2b3c4d5e6f7a8b9c0d2'' [''cat''] ''pointing meme'' 0 0 2000"


text \<open>An \<open>ObjectId\<close> constructor for the samples: it accepts the 24-digit hexadecimal
  form.\<close>

definition sampleObjectId :: "string \<Rightarrow> string option" where
  "sampleObjectId s =
     (if length s = 24 \<and> list_all (\<lambda>c. digitOf 16 c \<noteq> None) s then Some (toLowerCase s)
      else None)"

text \<open>A catalog read at day 40: one document is 31 days old, the other 2 days.\<close>

definition trendingSample :: "meme list" where
  "trendingSample =
     [sampleMeme ''old'' [''cat''] ''an old cat'' 900 900 (9 * msPerDay),
      sampleMeme ''new'' [''dog''] ''a new dog'' 10 5 (38 * msPerDay)]"

text \<open>Two documents read at time 3456000000: one is two days old, with ten upvotes
  and five downloads; the other is half a day old.\<close>

definition scoreSample :: "meme list" where
  "scoreSample =
     [sampleMeme ''new'' [''dog''] ''a new dog'' 10 5 3283200000,
      sampleMeme ''newer'' [''cat''] ''a newer cat'' 3 1 3412800000]"

text \<open>The catalog of the specification's popular-tags scenario, and a catalog whose
  only document repeats a tag.\<close>

definition popularSample :: "meme list" where
  "popularSample =
     [sampleMeme ''m1'' [''funny'', ''cat''] ''a funny cat'' 1 0 1000,
      sampleMeme ''m2'' [''funny''] ''fun'' 2 0 2000,
      sampleMeme ''m3'' [''dog''] ''a dog'' 3 0 3000]"

definition duplicateTagSample :: "meme list" where
  "duplicateTagSample = [sampleMeme ''m1'' [''funny'', ''funny''] ''so funny'' 1 4 1000]"

section \<open>Facts about the helpers\<close>

lemma lowerChar_white: "isWhiteSpace c \<Longrightarrow> lowerChar c = c"
  by (auto simp: isWhiteSpace_def lowerChar_def)

lemma split_ws_blank: "list_all isWhiteSpace s \<Longrightarrow> list_all (\<lambda>w. w = []) (split_ws s)"
  by (induction s) auto

lemma searchWordsOf_blank:
  assumes "list_all isWhiteSpace s"
  shows "searchWordsOf s = []"
proof -
  have "toLowerCase s = s"
    using assms by (simp add: toLowerCase_def list_all_iff map_idI lowerChar_white)
  with split_ws_blank[OF assms] show ?thesis
    by (auto simp: searchWordsOf_def filter_empty_conv list_all_iff)
qed

lemma search_no_words:
  "searchWordsOf s = [] \<Longrightarrow>
     search rx db (Some s) p l =
       (Status 400 (if s = [] then ''Search query is required''
                    else ''Please provide valid search terms''), [])"
  by (simp add: search_def)

lemma findOneAndUpdate_Some:
  "findOneAndUpdate f u xs = (Some v, ys) \<Longrightarrow>
     \<exists>i<length xs. f (xs ! i) \<and> (\<forall>j<i. \<not> f (xs ! j)) \<and> v = u (xs ! i) \<and> ys = xs[i := u (xs ! i)]"
proof (induction xs arbitrary: ys)
  case Nil
  then show ?case by simp
next
  case (Cons x xs)
  show ?case
  proof (cases "f x")
    case True
    with Cons.prems show ?thesis by (intro exI[of _ 0]) auto
  next
    case False
    with Cons.prems obtain zs where z: "findOneAndUpdate f u xs = (Some v, zs)" "ys = x # zs"
      by (auto split: prod.splits)
    from Cons.IH[OF z(1)] obtain i where i: "i < length xs" "f (xs ! i)" "\<forall>j<i. \<not> f (xs ! j)"
      "v = u (xs ! i)" "zs = xs[i := u (xs ! i)]" by blast
    show ?thesis
    proof (intro exI[of _ "Suc i"] conjI allI impI)
      fix j assume "j < Suc i"
      then show "\<not> f ((x # xs) ! j)" using False i(3) by (cases j) auto
    qed (use i z in auto)
  qed
qed

lemma find_findOneAndUpdate:
  "find f xs = Some m \<Longrightarrow>
     \<exists>i<length xs. m = xs ! i \<and> f m \<and> findOneAndUpdate f u xs = (Some (u m), xs[i := u m])"
proof (induction xs)
  case Nil
  then show ?case by simp
next
  case (Cons x xs)
  show ?case
  proof (cases "f x")
    case True
    with Cons.prems show ?thesis by (intro exI[of _ 0]) auto
  next
    case False
    with Cons.prems have "find f xs = Some m" by simp
    from Cons.IH[OF this] obtain i where
      "i < length xs" "m = xs ! i" "f m" "findOneAndUpdate f u xs = (Some (u m), xs[i := u m])"
      by blast
    with False show ?thesis by (intro exI[of _ "Suc i"]) auto
  qed
qed

section \<open>Validation before store access\<close>

text \<open>
  Claim C8. A search whose query is missing, empty, made of white space only, or
  leaves no token after lower-casing, splitting on white space and dropping tokens of
  length at most one, is answered with status 400, and the handler has made no store
  call by then.
\<close>

theorem search_invalid_query_rejected_before_store:
  assumes "q = None \<or>
           (\<exists>s. q = Some s \<and> (s = [] \<or> list_all isWhiteSpace s \<or> searchWordsOf s = []))"
  shows "\<exists>msg. search rx db q p l = (Status 400 msg, [])"
proof (cases q)
  case None
  then show ?thesis by (simp add: search_def)
next
  case (Some s)
  with assms have "s = [] \<or> list_all isWhiteSpace s \<or> searchWordsOf s = []" by simp
  then have "searchWordsOf s = []"
    using searchWordsOf_blank by auto
  with Some show ?thesis by (simp add: search_no_words)
qed

theorem search_invalid_query_witness:
  "searchWordsOf ''  a  I '' = [] \<and>
   (\<exists>msg. search wordsRegExp [scenarioR1, scenarioR2] (Some ''  a  I '') (Some 1) (Some 20)
           = (Status 400 msg, []))"
proof -
  have h: "searchWordsOf ''  a  I '' = []" by code_simp
  then have "Some ''  a  I '' = None \<or>
     (\<exists>s. Some ''  a  I '' = Some s \<and>
          (s = [] \<or> list_all isWhiteSpace s \<or> searchWordsOf s = []))"
    by simp
  from h search_invalid_query_rejected_before_store[OF this] show ?thesis by blast
qed

text \<open>
  Claim C10. A tag-suggestion request whose \<open>q\<close> is missing or empty is answered with
  success and an empty tag list, and the handler has made no store call.
\<close>

theorem search_assist_empty_query:
  assumes "q = None \<or> q = Some []"
  shows "search_assist rx db q = (Json [], [])"
  using assms by (auto simp: search_assist_def)

theorem search_assist_empty_query_witness:
  "search_assist wordsRegExp [scenarioR1, scenarioR2] None = (Json [], []) \<and>
   search_assist wordsRegExp [scenarioR1, scenarioR2] (Some []) = (Json [], [])"
proof -
  have a: "(None :: string option) = None \<or> None = Some []" by simp
  have b: "Some [] = None \<or> Some [] = Some ([] :: string)" by simp
  from search_assist_empty_query[OF a] search_assist_empty_query[OF b] show ?thesis by blast
qed

section \<open>The upvote counter\<close>

text \<open>
  Claim C9. When an update-upvote call succeeds, exactly one document of the
  collection changes: its \<open>upvotes\<close> is one more and its \<open>updatedAt\<close> is the current
  time; its other fields and every other document are as before. This holds for the
  driver-based handler and for the Mongoose-based one.
\<close>

theorem update_upvote_frame:
  assumes "handler = update_upvote \<or> handler = update_upvote_mongoose"
    and "handler objectId now db mid = (Json body, ops, db')"
  shows "\<exists>i<length db.
           mid \<noteq> None \<and> objectId (the mid) = Some (meme_id (db ! i)) \<and>
           db' = db[i := (db ! i)\<lparr> upvotes := upvotes (db ! i) + 1, updatedAt := now \<rparr>] \<and>
           length db' = length db \<and>
           upvotes (db' ! i) = upvotes (db ! i) + 1 \<and> updatedAt (db' ! i) = now \<and>
           downloads (db' ! i) = downloads (db ! i) \<and> tags (db' ! i) = tags (db ! i) \<and>
           description (db' ! i) = description (db ! i) \<and>
           createdAt (db' ! i) = createdAt (db ! i) \<and>
           image_url (db' ! i) = image_url (db ! i) \<and>
           cloudinary_id (db' ! i) = cloudinary_id (db ! i) \<and>
           meme_id (db' ! i) = meme_id (db ! i) \<and> metadata (db' ! i) = metadata (db ! i) \<and>
           (\<forall>j<length db. j \<noteq> i \<longrightarrow> db' ! j = db ! j) \<and>
           body_upvotes body = upvotes (db ! i) + 1 \<and> memeId body = meme_id (db ! i)"
proof -
  have "\<exists>i<length db.
           mid \<noteq> None \<and> objectId (the mid) = Some (meme_id (db ! i)) \<and>
           db' = db[i := (db ! i)\<lparr> upvotes := upvotes (db ! i) + 1, updatedAt := now \<rparr>] \<and>
           body_upvotes body = upvotes (db ! i) + 1 \<and> memeId body = meme_id (db ! i)"
    using assms(1)
  proof
    assume h: "handler = update_upvote"
    with assms(2) obtain s oid v where s: "mid = Some s" "objectId s = Some oid"
      and f: "findOneAndUpdate (\<lambda>m. meme_id m = oid)
                (\<lambda>m. m\<lparr> upvotes := upvotes m + 1, updatedAt := now \<rparr>) db = (Some v, db')"
      and b: "body = \<lparr> body_upvotes = upvotes v, memeId = meme_id v \<rparr>"
      by (auto simp: update_upvote_def split: option.splits if_splits prod.splits)
    from findOneAndUpdate_Some[OF f] obtain i where "i < length db" "meme_id (db ! i) = oid"
      "v = (db ! i)\<lparr> upvotes := upvotes (db ! i) + 1, updatedAt := now \<rparr>"
      "db' = db[i := (db ! i)\<lparr> upvotes := upvotes (db ! i) + 1, updatedAt := now \<rparr>]"
      by blast
    with s b show ?thesis by (intro exI[of _ i]) simp
  next
    assume h: "handler = update_upvote_mongoose"
    with assms(2) obtain s oid m where s: "mid = Some s" "objectId s = Some oid"
      and f: "find (\<lambda>m. meme_id m = oid) db = Some m"
      and b: "body = \<lparr> body_upvotes = upvotes m + 1, memeId = meme_id m \<rparr>"
      and d: "db' = snd (findOneAndUpdate (\<lambda>x. meme_id x = meme_id m)
                     (\<lambda>x. x\<lparr> upvotes := upvotes m + 1, updatedAt := now \<rparr>) db)"
      by (auto simp: update_upvote_mongoose_def Let_def split: option.splits if_splits)
    from find_findOneAndUpdate[OF f, of "\<lambda>x. x\<lparr> upvotes := upvotes m + 1, updatedAt := now \<rparr>"]
    obtain i where i: "i < length db" "m = db ! i" "meme_id m = oid"
      "findOneAndUpdate (\<lambda>x. meme_id x = oid)
         (\<lambda>x. x\<lparr> upvotes := upvotes m + 1, updatedAt := now \<rparr>) db
       = (Some (m\<lparr> upvotes := upvotes m + 1, updatedAt := now \<rparr>),
          db[i := m\<lparr> upvotes := upvotes m + 1, updatedAt := now \<rparr>])"
      by blast
    with s b d show ?thesis by (intro exI[of _ i]) simp
  qed
  then obtain i where i: "i < length db" "mid \<noteq> None"
    "objectId (the mid) = Some (meme_id (db ! i))"
    "db' = db[i := (db ! i)\<lparr> upvotes := upvotes (db ! i) + 1, updatedAt := now \<rparr>]"
    "body_upvotes body = upvotes (db ! i) + 1" "memeId body = meme_id (db ! i)"
    by blast
  show ?thesis
    by (rule exI[of _ i]) (use i in simp)
qed

theorem update_upvote_frame_witness:
  "update_upvote sampleObjectId 5000
      [scenarioR1, scenarioR2] (Some ''64f1a2b3c4d5e6f7a8b9c0d2'')
     = (Json \<lparr> body_upvotes = 1, memeId = ''64f1a2b3c4d5e6f7a8b9c0d2'' \<rparr>, [Connect, FindOneAndUpdate],
        [scenarioR1, scenarioR2\<lparr> upvotes := 1, updatedAt := 5000 \<rparr>]) \<and>
   update_upvote_mongoose sampleObjectId 5000
      [scenarioR1, scenarioR2] (Some ''64f1a2b3c4d5e6f7a8b9c0d2'')
     = (Json \<lparr> body_upvotes = 1, memeId = ''64f1a2b3c4d5e6f7a8b9c0d2'' \<rparr>, [FindById, Save],
        [scenarioR1, scenarioR2\<lparr> upvotes := 1, updatedAt := 5000 \<rparr>]) \<and>
   (\<exists>i<length [scenarioR1, scenarioR2].
      [scenarioR1, scenarioR2\<lparr> upvotes := 1, updatedAt := 5000 \<rparr>]
        = [scenarioR1, scenarioR2]
            [i := ([scenarioR1, scenarioR2] ! i)
                    \<lparr> upvotes := upvotes ([scenarioR1, scenarioR2] ! i) + 1,
                      updatedAt := 5000 \<rparr>])"
proof -
  have a: "update_upvote sampleObjectId 5000
      [scenarioR1, scenarioR2] (Some ''64f1a2b3c4d5e6f7a8b9c0d2'')
     = (Json \<lparr> body_upvotes = 1, memeId = ''64f1a2b3c4d5e6f7a8b9c0d2'' \<rparr>, [Connect, FindOneAndUpdate],
        [scenarioR1, scenarioR2\<lparr> upvotes := 1, updatedAt := 5000 \<rparr>])"
    by code_simp
  have b: "update_upvote_mongoose sampleObjectId 5000
      [scenarioR1, scenarioR2] (Some ''64f1a2b3c4d5e6f7a8b9c0d2'')
     = (Json \<lparr> body_upvotes = 1, memeId = ''64f1a2b3c4d5e6f7a8b9c0d2'' \<rparr>, [FindById, Save],
        [scenarioR1, scenarioR2\<lparr> upvotes := 1, updatedAt := 5000 \<rparr>])"
    by code_simp
  have h: "update_upvote = update_upvote \<or>
           update_upvote = (update_upvote_mongoose ::
             (string \<Rightarrow> string option) \<Rightarrow> int \<Rightarrow> meme list \<Rightarrow> string option
               \<Rightarrow> upvote_body response \<times> store_op list \<times> meme list)"
    by simp
  from update_upvote_frame[OF h a] have
    "\<exists>i<length [scenarioR1, scenarioR2].
      [scenarioR1, scenarioR2\<lparr> upvotes := 1, updatedAt := 5000 \<rparr>]
        = [scenarioR1, scenarioR2]
            [i := ([scenarioR1, scenarioR2] ! i)
                    \<lparr> upvotes := upvotes ([scenarioR1, scenarioR2] ! i) + 1,
                      updatedAt := 5000 \<rparr>]"
    by blast
  moreover have h': "update_upvote_mongoose = update_upvote \<or>
           update_upvote_mongoose = (update_upvote_mongoose ::
             (string \<Rightarrow> string option) \<Rightarrow> int \<Rightarrow> meme list \<Rightarrow> string option
               \<Rightarrow> upvote_body response \<times> store_op list \<times> meme list)"
    by simp
  note update_upvote_frame[OF h' b]
  ultimately show ?thesis using a b by blast
qed

section \<open>Trending\<close>

lemma msPerDay_pos: "0 < msPerDay"
  by (simp add: msPerDay_def)

lemma daysBetween_le_30: "daysBetween now c \<le> 30 \<longleftrightarrow> now - c \<le> 30 * msPerDay"
proof -
  have "daysBetween now c \<le> 30 \<longleftrightarrow> (of_int (now - c) :: rat) \<le> 30 * of_int msPerDay"
    using msPerDay_pos by (simp add: daysBetween_def pos_divide_le_eq)
  also have "\<dots> \<longleftrightarrow> (of_int (now - c) :: rat) \<le> of_int (30 * msPerDay)"
    by simp
  also have "\<dots> \<longleftrightarrow> now - c \<le> 30 * msPerDay"
    by (rule of_int_le_iff)
  finally show ?thesis .
qed

lemma mongoRound_close: "\<bar>mongoRound x n - x\<bar> \<le> 1 / (2 * 10 ^ n)"
proof -
  define scale :: rat where "scale = 10 ^ n"
  define y where "y = x * scale"
  define f where "f = \<lfloor>y\<rfloor>"
  define r where "r = y - of_int f"
  define k where "k = (if r < 1 / 2 then f else if 1 / 2 < r then f + 1
               else if even f then f else f + 1)"
  have sp: "0 < scale" by (simp add: scale_def)
  have fl: "of_int f \<le> y" "y < of_int f + 1" unfolding f_def by linarith+
  have kk: "k = f \<and> r \<le> 1 / 2 \<or> k = f + 1 \<and> 1 / 2 \<le> r"
    unfolding k_def by auto
  have "\<bar>of_int k - y\<bar> \<le> 1 / 2"
    using kk
  proof
    assume a: "k = f \<and> r \<le> 1 / 2"
    then have "of_int k - y = - r" by (simp add: r_def)
    moreover have "0 \<le> r" using fl by (simp add: r_def)
    ultimately show ?thesis using a by simp
  next
    assume a: "k = f + 1 \<and> 1 / 2 \<le> r"
    then have "of_int k - y = 1 - r" by (simp add: r_def)
    moreover have "r < 1" using fl by (simp add: r_def)
    ultimately show ?thesis using a by simp
  qed
  moreover have "mongoRound x n - x = (of_int k - y) / scale"
    using sp by (simp add: mongoRound_def Let_def k_def r_def f_def y_def scale_def diff_divide_distrib)
  moreover have "\<bar>(of_int k - y) / scale\<bar> = \<bar>of_int k - y\<bar> / scale"
    using sp by simp
  moreover have "1 / (2 * 10 ^ n) = (1 / 2) / scale"
    by (simp add: scale_def)
  ultimately show ?thesis
    using sp divide_right_mono[of "\<bar>of_int k - y\<bar>" "1 / 2" scale] by simp
qed

lemma mongoRound_grid: "\<exists>k::int. mongoRound x n = of_int k / 10 ^ n"
  by (auto simp: mongoRound_def Let_def)

text \<open>
  Claim C7, for counters that are not both zero. For fixed counters with
  \<open>2 * upvotes + downloads > 0\<close> the unrounded trending score is strictly decreasing in
  the days since creation, on ages above \<open>-1\<close> (so on every non-negative age). With
  both counters zero the score is zero at every age.
\<close>

theorem trendingScore_decreasing_with_age:
  assumes "0 < ups * 2 + downs" and "- 1 < d1" and "d1 < d2"
  shows "trendingScoreOf ups downs d2 < trendingScoreOf ups downs d1"
proof -
  have "(0 :: rat) < of_int (ups * 2 + downs)" using assms(1) by simp
  moreover have "0 < d1 + 1" "d1 + 1 < d2 + 1" using assms by simp_all
  ultimately show ?thesis
    unfolding trendingScoreOf_def by (intro divide_strict_left_mono) (auto intro: mult_pos_pos)
qed

text \<open>With no upvotes and no downloads the score is zero at ages 1 and 2 alike.\<close>

theorem trendingScore_zero_counters_flat:
  "(1 :: rat) < 2 \<and> \<not> trendingScoreOf 0 0 2 < trendingScoreOf 0 0 1"
  by (simp add: trendingScoreOf_def)

lemma trendingPipeline_hits:
  assumes "trendingPipeline now1 now2 skp lmt db = Some hits" and "h \<in> set hits"
  shows "\<exists>m\<in>set db. daysBetween now1 (createdAt m) \<le> 30 \<and>
           daysBetween now2 (createdAt m) + 1 \<noteq> 0 \<and>
           h = projectTrending (m, daysBetween now1 (createdAt m),
                 trendingScoreOf (upvotes m) (downloads m) (daysBetween now2 (createdAt m)))"
proof -
  from assms(1) obtain docs rest kept where
    d: "addTrendingFields now1 now2 db = Some docs"
    and r: "stage_skip skp
              (sort_key (\<lambda>x. case x of (m, days, score) \<Rightarrow> (- score, - upvotes m, - createdAt m))
                 (filter (\<lambda>x. case x of (m, days, score) \<Rightarrow> days \<le> 30) docs)) = Some rest"
    and k: "stage_limit lmt rest = Some kept" and hs: "hits = map projectTrending kept"
    by (auto simp: trendingPipeline_def split: option.splits)
  from assms(2) hs obtain x where x: "x \<in> set kept" "h = projectTrending x" by auto
  from k x(1) have "x \<in> set rest"
    by (auto simp: stage_limit_def split: if_splits dest: in_set_takeD)
  with r have "x \<in> set (filter (\<lambda>x. case x of (m, days, score) \<Rightarrow> days \<le> 30) docs)"
    by (auto simp: stage_skip_def split: if_splits dest: in_set_dropD)
  then have xd: "x \<in> set docs" and e: "fst (snd x) \<le> 30" by auto
  from d have nz: "\<forall>m\<in>set db. daysBetween now2 (createdAt m) + 1 \<noteq> 0"
    and docs: "docs = map (\<lambda>m. (m, daysBetween now1 (createdAt m),
                   trendingScoreOf (upvotes m) (downloads m) (daysBetween now2 (createdAt m)))) db"
    by (auto simp: addTrendingFields_def list_ex_iff split: if_splits)
  from xd docs obtain m where "m \<in> set db" "x = (m, daysBetween now1 (createdAt m),
                   trendingScoreOf (upvotes m) (downloads m) (daysBetween now2 (createdAt m)))"
    by auto
  with e nz x(2) show ?thesis by auto
qed

lemma trending_Json:
  assumes "trending sevenDaysAgo now1 now2 now3 db p l = (Json body, ops)"
  shows "trendingPipeline now1 now2
           (((case p of None \<Rightarrow> 1 | Some n \<Rightarrow> n) - 1) * (case l of None \<Rightarrow> 20 | Some n \<Rightarrow> n))
           (case l of None \<Rightarrow> 20 | Some n \<Rightarrow> n) db = Some (trendingMemes body)"
  using assms by (auto simp: trending_def Let_def split: option.splits)


lemma truncate_projectTrending:
  "meme_view.truncate (projectTrending (m, d, sc)) = meme_view.truncate m"
  by (simp add: projectTrending_def meme_view.truncate_def)

lemma createdAt_projectTrending: "createdAt (projectTrending (m, d, sc)) = createdAt m"
  by (simp add: projectTrending_def)

lemma trendingPipeline_whole:
  assumes "trendingPipeline now1 now2 0 lmt db = Some hits" and "int (length db) \<le> lmt"
    and "m \<in> set db" and "daysBetween now1 (createdAt m) \<le> 30"
  shows "projectTrending (m, daysBetween now1 (createdAt m),
           trendingScoreOf (upvotes m) (downloads m) (daysBetween now2 (createdAt m))) \<in> set hits"
proof -
  define E where "E = (\<lambda>x :: 'a meme_scheme \<times> rat \<times> rat. case x of (m, days, score) \<Rightarrow> days \<le> 30)"
  define K where "K = (\<lambda>x :: 'a meme_scheme \<times> rat \<times> rat.
                        case x of (m, days, score) \<Rightarrow> (- score, - upvotes m, - createdAt m))"
  from assms(1) obtain docs kept where
    d: "addTrendingFields now1 now2 db = Some docs"
    and k: "stage_limit lmt (sort_key K (filter E docs)) = Some kept"
    and hs: "hits = map projectTrending kept"
    by (auto simp: trendingPipeline_def stage_skip_def E_def K_def split: option.splits)
  from d have docs: "docs = map (\<lambda>m. (m, daysBetween now1 (createdAt m),
                   trendingScoreOf (upvotes m) (downloads m) (daysBetween now2 (createdAt m)))) db"
    by (auto simp: addTrendingFields_def split: if_splits)
  have "length (sort_key K (filter E docs)) \<le> length db"
    by (simp add: docs)
  with k assms(2) have "kept = sort_key K (filter E docs)"
    by (auto simp: stage_limit_def split: if_splits)
  moreover have "(m, daysBetween now1 (createdAt m),
           trendingScoreOf (upvotes m) (downloads m) (daysBetween now2 (createdAt m)))
         \<in> set (filter E docs)"
    using assms(3,4) by (auto simp: docs E_def)
  ultimately show ?thesis by (simp add: hs)
qed

text \<open>
  Claim C5. Every entry of a trending response was created at most 30 days (in
  milliseconds, hence in fractional days) before the clock reading \<open>now1\<close> of the
  filter; a document created more than 30 days before it is no entry, whatever its
  counters; and when the page is large enough to hold the whole collection, every
  document within the window is an entry.
\<close>

theorem trending_window:
  assumes "trending sevenDaysAgo now1 now2 now3 db p l = (Json body, ops)"
  shows "(\<forall>h\<in>set (trendingMemes body).
            now1 - createdAt h \<le> 30 * msPerDay \<and>
            (\<exists>m\<in>set db. meme_view.truncate m = meme_view.truncate h)) \<and>
         (\<forall>m\<in>set db. 30 * msPerDay < now1 - createdAt m \<longrightarrow>
            (\<forall>h\<in>set (trendingMemes body). meme_view.truncate h \<noteq> meme_view.truncate m)) \<and>
         ((p = None \<or> p = Some 1) \<and> int (length db) \<le> (case l of None \<Rightarrow> 20 | Some n \<Rightarrow> n) \<longrightarrow>
            (\<forall>m\<in>set db. now1 - createdAt m \<le> 30 * msPerDay \<longrightarrow>
               (\<exists>h\<in>set (trendingMemes body). meme_view.truncate h = meme_view.truncate m)))"
proof -
  note pl = trending_Json[OF assms]
  have a: "now1 - createdAt h \<le> 30 * msPerDay \<and>
           (\<exists>m\<in>set db. meme_view.truncate m = meme_view.truncate h)"
    if "h \<in> set (trendingMemes body)" for h
  proof -
    from trendingPipeline_hits[OF pl that] obtain m where m: "m \<in> set db"
      "daysBetween now1 (createdAt m) \<le> 30"
      "h = projectTrending (m, daysBetween now1 (createdAt m),
             trendingScoreOf (upvotes m) (downloads m) (daysBetween now2 (createdAt m)))"
      by blast
    then show ?thesis
      by (auto simp: daysBetween_le_30 createdAt_projectTrending truncate_projectTrending)
  qed
  have b: "meme_view.truncate h \<noteq> meme_view.truncate m"
    if "m \<in> set db" "30 * msPerDay < now1 - createdAt m" "h \<in> set (trendingMemes body)" for m h
  proof
    assume "meme_view.truncate h = meme_view.truncate m"
    then have "createdAt (meme_view.truncate h) = createdAt (meme_view.truncate m)" by simp
    then have "createdAt h = createdAt m" by (simp add: meme_view.truncate_def)
    with a[OF that(3)] that(2) show False by simp
  qed
  have c: "\<exists>h\<in>set (trendingMemes body). meme_view.truncate h = meme_view.truncate m"
    if "p = None \<or> p = Some 1" "int (length db) \<le> (case l of None \<Rightarrow> 20 | Some n \<Rightarrow> n)"
      "m \<in> set db" "now1 - createdAt m \<le> 30 * msPerDay" for m
  proof -
    from that(1) pl have "trendingPipeline now1 now2 0 (case l of None \<Rightarrow> 20 | Some n \<Rightarrow> n) db
        = Some (trendingMemes body)" by auto
    from trendingPipeline_whole[OF this that(2,3)] that(4)
    show ?thesis by (auto simp: daysBetween_le_30 intro!: bexI truncate_projectTrending)
  qed
  from a b c show ?thesis by blast
qed

text \<open>
  Claim C6. For every entry of a trending response, with \<open>now2\<close> the clock reading
  of the score expression, the age in days is \<open>(now2 - createdAt) / 86400000\<close> and
  the reported \<open>trendingScore\<close> is \<open>(2 * upvotes + downloads) / (age + 1)\<close> rounded to
  two decimal places: a multiple of 1/100 within 1/200 of the quotient (a tie goes to
  the even neighbour). An entry with ten upvotes and five downloads that was created
  exactly two days (172800000 milliseconds) before \<open>now2\<close> has the score 8.33.
\<close>

theorem trendingScore_reported:
  assumes "trending sevenDaysAgo now1 now2 now3 db p l = (Json body, ops)"
    and "h \<in> set (trendingMemes body)"
  shows "(\<exists>m\<in>set db. meme_view.truncate m = meme_view.truncate h) \<and>
         (of_int (now2 - createdAt h) :: rat) / 86400000 + 1 \<noteq> 0 \<and>
         trendingScore h =
           mongoRound (of_int (2 * upvotes h + downloads h)
                        / (of_int (now2 - createdAt h) / 86400000 + 1)) 2 \<and>
         \<bar>trendingScore h
            - of_int (2 * upvotes h + downloads h)
                / (of_int (now2 - createdAt h) / 86400000 + 1)\<bar> \<le> 1 / 200 \<and>
         (\<exists>k::int. trendingScore h = of_int k / 100) \<and>
         (upvotes h = 10 \<and> downloads h = 5 \<and> now2 - createdAt h = 2 * 86400000 \<longrightarrow>
            trendingScore h = 833 / 100)"
proof -
  from trendingPipeline_hits[OF trending_Json[OF assms(1)] assms(2)] obtain m where m: "m \<in> set db"
    "daysBetween now2 (createdAt m) + 1 \<noteq> 0"
    "h = projectTrending (m, daysBetween now1 (createdAt m),
           trendingScoreOf (upvotes m) (downloads m) (daysBetween now2 (createdAt m)))"
    by blast
  have age: "daysBetween now2 c = of_int (now2 - c) / 86400000" for c
    by (simp add: daysBetween_def msPerDay_def)
  define x :: rat where
    "x = of_int (2 * upvotes h + downloads h) / (of_int (now2 - createdAt h) / 86400000 + 1)"
  have eq: "trendingScore h = mongoRound x 2"
    by (simp add: x_def m(3) projectTrending_def trendingScoreOf_def age mult.commute)
  have nz: "(of_int (now2 - createdAt h) :: rat) / 86400000 + 1 \<noteq> 0"
    using m(2) by (simp add: m(3) projectTrending_def age)
  have src: "\<exists>m\<in>set db. meme_view.truncate m = meme_view.truncate h"
    using m(1) unfolding m(3) truncate_projectTrending by blast
  have cl: "\<bar>trendingScore h - x\<bar> \<le> 1 / 200"
    using mongoRound_close[of x 2] by (simp add: eq)
  have gr: "\<exists>k::int. trendingScore h = of_int k / 100"
    using mongoRound_grid[of x 2] by (simp add: eq)
  have r: "mongoRound (25 / 3) 2 = 833 / 100"
    by code_simp
  have ex: "trendingScore h = 833 / 100"
    if "upvotes h = 10 \<and> downloads h = 5 \<and> now2 - createdAt h = 2 * 86400000"
  proof -
    from that have "x = 25 / 3" by (simp add: x_def)
    with eq r show ?thesis by simp
  qed
  from src nz eq cl gr ex show ?thesis unfolding x_def by blast
qed

theorem trendingScore_decreasing_witness:
  "(0 :: int) < 10 * 2 + 5 \<and> (- 1 :: rat) < 2 \<and> (2 :: rat) < 3 \<and>
   trendingScoreOf 10 5 3 < trendingScoreOf 10 5 2"
proof -
  have a: "(0 :: int) < 10 * 2 + 5" and b: "(- 1 :: rat) < 2" and c: "(2 :: rat) < 3"
    by simp_all
  from trendingScore_decreasing_with_age[OF a b c] a b c show ?thesis by simp
qed

theorem trending_window_witness:
  "\<exists>body ops.
     trending (33 * msPerDay) (40 * msPerDay) (40 * msPerDay) (40 * msPerDay)
       trendingSample None None = (Json body, ops) \<and>
     map meme_id (trendingMemes body) = [''new''] \<and>
     list_all (\<lambda>h. 40 * msPerDay - createdAt h \<le> 30 * msPerDay) (trendingMemes body) \<and>
     30 * msPerDay < 40 * msPerDay - createdAt (trendingSample ! 0) \<and>
     list_all (\<lambda>h. meme_view.truncate h \<noteq> meme_view.truncate (trendingSample ! 0))
       (trendingMemes body) \<and>
     40 * msPerDay - createdAt (trendingSample ! 1) \<le> 30 * msPerDay \<and>
     list_ex (\<lambda>h. meme_view.truncate h = meme_view.truncate (trendingSample ! 1))
       (trendingMemes body)"
proof -
  let ?B = "\<lparr> trendingMemes =
        [\<lparr> meme_id = ''new'', image_url = ''https://res.cloudinary.com/neon/new'',
           tags = [''dog''], upvotes = 10, downloads = 5,
           description = Some ''a new dog'', createdAt = 3283200000,
           trendingScore = 833 / 100, daysSinceCreation = 2 \<rparr>],
        mostTrendingTag = Some ''dog'',
        trending_pagination =
          \<lparr> current = 1, total = Some 1, count_of_page = 1, totalItems = 1 \<rparr>,
        calculationPeriod = ''Last 30 days'',
        algorithm = ''Score = (upvotes * 2 + downloads) / (days_since_creation + 1)'' \<rparr>"
  have e: "trending (33 * msPerDay) (40 * msPerDay) (40 * msPerDay) (40 * msPerDay)
       trendingSample None None = (Json ?B, [Connect, Aggregate, Aggregate, Aggregate])"
    by code_simp
  have m: "map meme_id (trendingMemes ?B) = [''new'']"
    by simp
  have old: "30 * msPerDay < 40 * msPerDay - createdAt (trendingSample ! 0)"
    and new: "40 * msPerDay - createdAt (trendingSample ! 1) \<le> 30 * msPerDay"
    and mem: "trendingSample ! 0 \<in> set trendingSample" "trendingSample ! 1 \<in> set trendingSample"
    and len: "int (length trendingSample) \<le> (case None of None \<Rightarrow> 20 | Some n \<Rightarrow> n)"
    by (simp_all add: trendingSample_def sampleMeme_def msPerDay_def)
  note w = trending_window[OF e]
  have l: "list_all (\<lambda>h. 40 * msPerDay - createdAt h \<le> 30 * msPerDay) (trendingMemes ?B)"
    using w by (simp add: list_all_iff)
  have x: "list_all (\<lambda>h. meme_view.truncate h \<noteq> meme_view.truncate (trendingSample ! 0))
       (trendingMemes ?B)"
    unfolding list_all_iff using w old mem(1) by blast
  have y: "list_ex (\<lambda>h. meme_view.truncate h = meme_view.truncate (trendingSample ! 1))
       (trendingMemes ?B)"
    unfolding list_ex_iff using w new mem(2) len by blast
  show ?thesis
    apply (rule exI[of _ ?B])
    apply (rule exI[of _ "[Connect, Aggregate, Aggregate, Aggregate]"])
    apply (intro conjI)
          apply (rule e)
         apply (rule m)
        apply (rule l)
       apply (rule old)
      apply (rule x)
     apply (rule new)
    apply (rule y)
    done
qed

theorem trendingScore_reported_witness:
  "\<exists>body ops.
     trending 2851200000 3456000000 3456000000 3456000000 scoreSample (Some 1) (Some 5)
       = (Json body, ops) \<and>
     map (\<lambda>h. (meme_id h, trendingScore h)) (trendingMemes body)
       = [(''new'', 833 / 100), (''newer'', 467 / 100)] \<and>
     list_all (\<lambda>h. \<bar>trendingScore h - of_int (2 * upvotes h + downloads h)
                        / (of_int (3456000000 - createdAt h) / 86400000 + 1)\<bar> \<le> 1 / 200)
       (trendingMemes body) \<and>
     list_ex (\<lambda>h. upvotes h = 10 \<and> downloads h = 5 \<and>
                   3456000000 - createdAt h = 2 * 86400000 \<and> trendingScore h = 833 / 100)
       (trendingMemes body)"
proof -
  let ?h1 = "\<lparr> meme_id = ''new'', image_url = ''https://res.cloudinary.com/neon/new'',
           tags = [''dog''], upvotes = 10, downloads = 5,
           description = Some ''a new dog'', createdAt = 3283200000,
           trendingScore = 833 / 100, daysSinceCreation = 2 \<rparr>"
  let ?h2 = "\<lparr> meme_id = ''newer'', image_url = ''https://res.cloudinary.com/neon/newer'',
           tags = [''cat''], upvotes = 3, downloads = 1,
           description = Some ''a newer cat'', createdAt = 3412800000,
           trendingScore = 467 / 100, daysSinceCreation = 1 / 2 \<rparr>"
  let ?B = "\<lparr> trendingMemes = [?h1, ?h2],
        mostTrendingTag = Some ''dog'',
        trending_pagination =
          \<lparr> current = 1, total = Some 1, count_of_page = 2, totalItems = 2 \<rparr>,
        calculationPeriod = ''Last 30 days'',
        algorithm = ''Score = (upvotes * 2 + downloads) / (days_since_creation + 1)'' \<rparr>"
  have e: "trending 2851200000 3456000000 3456000000 3456000000 scoreSample (Some 1) (Some 5)
       = (Json ?B, [Connect, Aggregate, Aggregate, Aggregate])"
    by code_simp
  have m: "map (\<lambda>h. (meme_id h, trendingScore h)) (trendingMemes ?B)
       = [(''new'', 833 / 100), (''newer'', 467 / 100)]"
    by simp
  have "\<bar>trendingScore h - of_int (2 * upvotes h + downloads h)
                        / (of_int (3456000000 - createdAt h) / 86400000 + 1)\<bar> \<le> 1 / 200"
    if "h \<in> set (trendingMemes ?B)" for h
    using trendingScore_reported[OF e that] by blast
  then have l: "list_all (\<lambda>h. \<bar>trendingScore h - of_int (2 * upvotes h + downloads h)
                        / (of_int (3456000000 - createdAt h) / 86400000 + 1)\<bar> \<le> 1 / 200)
       (trendingMemes ?B)"
    unfolding list_all_iff by blast
  have in1: "?h1 \<in> set (trendingMemes ?B)" by simp
  have pre: "upvotes ?h1 = 10 \<and> downloads ?h1 = 5 \<and> 3456000000 - createdAt ?h1 = 2 * 86400000"
    by simp
  from trendingScore_reported[OF e in1] pre have "trendingScore ?h1 = 833 / 100"
    by blast
  with pre in1 have x: "list_ex (\<lambda>h. upvotes h = 10 \<and> downloads h = 5 \<and>
                   3456000000 - createdAt h = 2 * 86400000 \<and> trendingScore h = 833 / 100)
       (trendingMemes ?B)"
    unfolding list_ex_iff by blast
  show ?thesis
    apply (rule exI[of _ ?B])
    apply (rule exI[of _ "[Connect, Aggregate, Aggregate, Aggregate]"])
    apply (intro conjI)
       apply (rule e)
      apply (rule m)
     apply (rule l)
    apply (rule x)
    done
qed

section \<open>Popular tags\<close>

lemma groupOf_tags:
  "map snd (filter (\<lambda>d. fst d = t) (map (\<lambda>t'. (t', m)) ts)) = replicate (count_list ts t) m"
  by (induction ts) auto

lemma groupOf_unwindTags:
  "groupOf t (unwindTags db) = concat (map (\<lambda>m. replicate (count_list (tags m) t) m) db)"
  by (induction db) (auto simp: groupOf_def unwindTags_def groupOf_tags)

lemma length_groupOf:
  "int (length (groupOf t (unwindTags db))) = (\<Sum>m\<leftarrow>db. int (count_list (tags m) t))"
  by (induction db) (auto simp: groupOf_unwindTags)

lemma sum_groupOf:
  "sum_list (map f (groupOf t (unwindTags db))) = (\<Sum>m\<leftarrow>db. int (count_list (tags m) t) * f m)"
  by (induction db) (auto simp: groupOf_unwindTags sum_list_replicate)

lemma count_list_distinct:
  "distinct ts \<Longrightarrow> count_list ts t = (if t \<in> set ts then 1 else 0)"
  by (induction ts) auto

lemma groupOf_distinct:
  "\<forall>m\<in>set db. distinct (tags m) \<Longrightarrow>
     groupOf t (unwindTags db) = filter (\<lambda>m. t \<in> set (tags m)) db"
  by (induction db) (auto simp: groupOf_unwindTags count_list_distinct)

lemma set_groupIds: "set (groupIds docs) = fst ` set docs"
  by (simp add: groupIds_def)

lemma tagGroups_member:
  assumes "g \<in> set (tagGroups db)"
  shows "count g = int (length (groupOf (tag g) (unwindTags db))) \<and>
         totalUpvotes g = sum_list (map upvotes (groupOf (tag g) (unwindTags db))) \<and>
         totalDownloads g = sum_list (map downloads (groupOf (tag g) (unwindTags db)))"
  using assms by (auto simp: tagGroups_def Let_def)

lemma popular_Json:
  assumes "popular db l = (Json out, ops)"
  shows "out = map (\<lambda>g. g\<lparr> avgUpvotes := mongoRound (avgUpvotes g) 2 \<rparr>)
                 (take (nat (case l of None \<Rightarrow> 30 | Some n \<Rightarrow> n))
                    (sort_key (\<lambda>g. (- count g, - totalUpvotes g)) (tagGroups db)))"
  using assms by (auto simp: popular_def Let_def stage_limit_def split: option.splits if_splits)

lemma popular_sorted:
  assumes "popular db l = (Json out, ops)"
  shows "sorted_wrt (\<lambda>a b. count b < count a \<or> (count a = count b \<and> totalUpvotes b \<le> totalUpvotes a)) out"
proof -
  define K where "K = (\<lambda>g :: tag_stat. (- count g, - totalUpvotes g))"
  define n where "n = nat (case l of None \<Rightarrow> 30 | Some n \<Rightarrow> n)"
  have out: "out = map (\<lambda>g. g\<lparr> avgUpvotes := mongoRound (avgUpvotes g) 2 \<rparr>)
                 (take n (sort_key K (tagGroups db)))"
    using popular_Json[OF assms] by (simp add: K_def n_def)
  have "sorted (map K (sort_key K (tagGroups db)))" by (rule sorted_sort_key)
  then have "sorted (take n (map K (sort_key K (tagGroups db))))" by (rule sorted_wrt_take)
  then have "sorted (map K (take n (sort_key K (tagGroups db))))" by (simp add: take_map)
  then have "sorted_wrt (\<lambda>a b. K a \<le> K b) (take n (sort_key K (tagGroups db)))"
    by (simp add: sorted_map)
  then have "sorted_wrt (\<lambda>a b. K a \<le> K b) out"
    by (simp add: out sorted_wrt_map K_def)
  then show ?thesis
    by (rule sorted_wrt_mono_rel[rotated]) (auto simp: K_def less_eq_prod_def)
qed

text \<open>
  Claim C4, counting occurrences. For every entry of the popular-tags output, \<open>count\<close> is the
  number of occurrences of the tag in the tag sequences of all documents (a document
  that lists the tag twice counts twice), and \<open>totalUpvotes\<close> and \<open>totalDownloads\<close>
  add a document's counters once per occurrence. When no document repeats a tag,
  \<open>count\<close> is the number of documents that carry the tag and the totals are the sums
  over exactly those documents. The entries are ordered by descending \<open>count\<close>, ties
  by descending \<open>totalUpvotes\<close>.
\<close>

theorem popular_tag_statistics:
  assumes "popular db l = (Json out, ops)"
  shows "(\<forall>g\<in>set out.
            count g = (\<Sum>m\<leftarrow>db. int (count_list (tags m) (tag g))) \<and>
            totalUpvotes g = (\<Sum>m\<leftarrow>db. int (count_list (tags m) (tag g)) * upvotes m) \<and>
            totalDownloads g = (\<Sum>m\<leftarrow>db. int (count_list (tags m) (tag g)) * downloads m) \<and>
            ((\<forall>m\<in>set db. distinct (tags m)) \<longrightarrow>
               count g = int (length (filter (\<lambda>m. tag g \<in> set (tags m)) db)) \<and>
               totalUpvotes g = sum_list (map upvotes (filter (\<lambda>m. tag g \<in> set (tags m)) db)) \<and>
               totalDownloads g
                 = sum_list (map downloads (filter (\<lambda>m. tag g \<in> set (tags m)) db)))) \<and>
         sorted_wrt (\<lambda>a b. count b < count a \<or>
                            (count a = count b \<and> totalUpvotes b \<le> totalUpvotes a)) out"
proof -
  have "count g = (\<Sum>m\<leftarrow>db. int (count_list (tags m) (tag g))) \<and>
        totalUpvotes g = (\<Sum>m\<leftarrow>db. int (count_list (tags m) (tag g)) * upvotes m) \<and>
        totalDownloads g = (\<Sum>m\<leftarrow>db. int (count_list (tags m) (tag g)) * downloads m) \<and>
        ((\<forall>m\<in>set db. distinct (tags m)) \<longrightarrow>
           count g = int (length (filter (\<lambda>m. tag g \<in> set (tags m)) db)) \<and>
           totalUpvotes g = sum_list (map upvotes (filter (\<lambda>m. tag g \<in> set (tags m)) db)) \<and>
           totalDownloads g
             = sum_list (map downloads (filter (\<lambda>m. tag g \<in> set (tags m)) db)))"
    if "g \<in> set out" for g
  proof -
    from that popular_Json[OF assms] obtain g0 where
      g0: "g0 \<in> set (tagGroups db)" "g = g0\<lparr> avgUpvotes := mongoRound (avgUpvotes g0) 2 \<rparr>"
      by (auto dest!: in_set_takeD)
    from tagGroups_member[OF g0(1)] g0(2) have
      c: "count g = int (length (groupOf (tag g) (unwindTags db)))"
      and u: "totalUpvotes g = sum_list (map upvotes (groupOf (tag g) (unwindTags db)))"
      and d: "totalDownloads g = sum_list (map downloads (groupOf (tag g) (unwindTags db)))"
      by simp_all
    have "count g = (\<Sum>m\<leftarrow>db. int (count_list (tags m) (tag g)))"
      unfolding c by (rule length_groupOf)
    moreover have "totalUpvotes g = (\<Sum>m\<leftarrow>db. int (count_list (tags m) (tag g)) * upvotes m)"
      unfolding u by (rule sum_groupOf)
    moreover have "totalDownloads g = (\<Sum>m\<leftarrow>db. int (count_list (tags m) (tag g)) * downloads m)"
      unfolding d by (rule sum_groupOf)
    moreover have "count g = int (length (filter (\<lambda>m. tag g \<in> set (tags m)) db)) \<and>
           totalUpvotes g = sum_list (map upvotes (filter (\<lambda>m. tag g \<in> set (tags m)) db)) \<and>
           totalDownloads g
             = sum_list (map downloads (filter (\<lambda>m. tag g \<in> set (tags m)) db))"
      if "\<forall>m\<in>set db. distinct (tags m)"
      using c u d groupOf_distinct[OF that, of "tag g"] by simp
    ultimately show ?thesis by blast
  qed
  with popular_sorted[OF assms] show ?thesis by blast
qed

theorem popular_tag_statistics_witness:
  "popular popularSample None =
     (Json [\<lparr> tag = ''funny'', count = 2, totalUpvotes = 3, totalDownloads = 0,
              avgUpvotes = 3 / 2 \<rparr>,
            \<lparr> tag = ''dog'', count = 1, totalUpvotes = 3, totalDownloads = 0,
              avgUpvotes = 3 \<rparr>,
            \<lparr> tag = ''cat'', count = 1, totalUpvotes = 1, totalDownloads = 0,
              avgUpvotes = 1 \<rparr>],
      [Connect, Aggregate]) \<and>
   list_all (\<lambda>m. distinct (tags m)) popularSample \<and>
   list_all (\<lambda>g. count g = int (length (filter (\<lambda>m. tag g \<in> set (tags m)) popularSample)))
     [\<lparr> tag = ''funny'', count = 2, totalUpvotes = 3, totalDownloads = 0,
        avgUpvotes = 3 / 2 \<rparr>,
      \<lparr> tag = ''dog'', count = 1, totalUpvotes = 3, totalDownloads = 0,
        avgUpvotes = 3 \<rparr>,
      \<lparr> tag = ''cat'', count = 1, totalUpvotes = 1, totalDownloads = 0,
        avgUpvotes = 1 \<rparr>]"
proof -
  let ?out = "[\<lparr> tag = ''funny'', count = 2, totalUpvotes = 3, totalDownloads = 0,
                 avgUpvotes = 3 / 2 \<rparr>,
               \<lparr> tag = ''dog'', count = 1, totalUpvotes = 3, totalDownloads = 0,
                 avgUpvotes = 3 \<rparr>,
               \<lparr> tag = ''cat'', count = 1, totalUpvotes = 1, totalDownloads = 0,
                 avgUpvotes = 1 \<rparr>]"
  have e: "popular popularSample None = (Json ?out, [Connect, Aggregate])"
    by code_simp
  have d: "list_all (\<lambda>m. distinct (tags m)) popularSample"
    by code_simp
  then have d': "\<forall>m\<in>set popularSample. distinct (tags m)"
    by (simp add: list_all_iff)
  have "\<forall>g\<in>set ?out.
          count g = int (length (filter (\<lambda>m. tag g \<in> set (tags m)) popularSample))"
    using popular_tag_statistics[OF e] d' by blast
  then have "list_all (\<lambda>g. count g
        = int (length (filter (\<lambda>m. tag g \<in> set (tags m)) popularSample))) ?out"
    unfolding list_all_iff .
  with e d show ?thesis by (intro conjI)
qed

text \<open>A document that lists a tag twice is counted twice for it.\<close>

theorem popular_counts_repeated_tag_twice:
  "popular duplicateTagSample None =
     (Json [\<lparr> tag = ''funny'', count = 2, totalUpvotes = 2, totalDownloads = 8,
              avgUpvotes = 1 \<rparr>],
      [Connect, Aggregate]) \<and>
   int (length (filter (\<lambda>m. ''funny'' \<in> set (tags m)) duplicateTagSample)) = 1 \<and>
   sum_list (map upvotes (filter (\<lambda>m. ''funny'' \<in> set (tags m)) duplicateTagSample)) = 1 \<and>
   sum_list (map downloads (filter (\<lambda>m. ''funny'' \<in> set (tags m)) duplicateTagSample)) = 4"
  by code_simp

section \<open>Relevance scoring\<close>

lemma startsWith_iff: "startsWith s w \<longleftrightarrow> (\<exists>q. s = w @ q)"
  by (induction s w rule: startsWith.induct) auto

lemma includesStr_iff: "includesStr s w \<longleftrightarrow> (\<exists>p q. s = p @ w @ q)"
proof (induction s)
  case Nil
  then show ?case by simp
next
  case (Cons d s)
  show ?case
  proof
    assume "includesStr (d # s) w"
    then consider "startsWith (d # s) w" | "includesStr s w" by auto
    then show "\<exists>p q. d # s = p @ w @ q"
    proof cases
      case 1
      then obtain q where "d # s = w @ q" by (auto simp: startsWith_iff)
      then have "d # s = [] @ w @ q" by simp
      then show ?thesis by blast
    next
      case 2
      with Cons.IH obtain p q where "s = p @ w @ q" by blast
      then have "d # s = (d # p) @ w @ q" by simp
      then show ?thesis by blast
    qed
  next
    assume "\<exists>p q. d # s = p @ w @ q"
    then obtain p q where pq: "d # s = p @ w @ q" by blast
    show "includesStr (d # s) w"
    proof (cases p)
      case Nil
      with pq have "startsWith (d # s) w" by (auto simp: startsWith_iff)
      then show ?thesis by simp
    next
      case (Cons a p')
      with pq have "s = p' @ w @ q" by simp
      with Cons.IH have "includesStr s w" by blast
      then show ?thesis by simp
    qed
  qed
qed

lemma toLowerCase_Nil_iff: "toLowerCase w = [] \<longleftrightarrow> w = []"
  by (simp add: toLowerCase_def)

lemma descriptionMatches_count:
  assumes "[] \<notin> set ws"
  shows "descriptionMatches ws m =
     int (length (filter (\<lambda>w. \<exists>p q.
            toLowerCase (case description m of None \<Rightarrow> [] | Some d \<Rightarrow> d) = p @ toLowerCase w @ q) ws))"
proof -
  have none: "filter (\<lambda>w. \<exists>p q. toLowerCase [] = p @ toLowerCase w @ q) ws = []"
    using assms by (auto simp: filter_empty_conv toLowerCase_def)
  show ?thesis
  proof (cases "description m")
    case None
    then show ?thesis using none by (simp add: descriptionMatches_def)
  next
    case (Some d)
    show ?thesis
    proof (cases "d = []")
      case True
      with Some none show ?thesis by (simp add: descriptionMatches_def)
    next
      case False
      with Some show ?thesis by (simp add: descriptionMatches_def includesStr_iff)
    qed
  qed
qed

lemma tagMatches_zero_iff:
  "tagMatches ws m = 0 \<longleftrightarrow>
     \<not> (\<exists>w\<in>set ws. \<exists>t\<in>set (tags m). \<exists>p q. toLowerCase t = p @ toLowerCase w @ q)"
  by (auto simp: tagMatches_def filter_empty_conv list_ex_iff includesStr_iff)

text \<open>
  Claim C2, counting token occurrences. For a list of non-empty tokens, as tokenization yields them, the
  relevance score is twice the number of tokens of the list that are contained in the
  lower-cased description, plus the tag term. A token that the query repeats is counted
  once per repetition; a token counts once however many positions of the description it
  matches; when the list has no repeated token the count is the number of distinct
  tokens contained in the description. The tag term is not negative, and it is zero
  exactly when no token is contained in any tag.
\<close>

theorem relevanceScore_counts:
  assumes "[] \<notin> set ws"
  shows "relevanceScore ws m =
           2 * int (card {i. i < length ws \<and> (\<exists>p q.
                 toLowerCase (case description m of None \<Rightarrow> [] | Some d \<Rightarrow> d)
                   = p @ toLowerCase (ws ! i) @ q)})
           + tagMatches ws m \<and>
         (distinct ws \<longrightarrow>
            relevanceScore ws m =
              2 * int (card {w \<in> set ws. \<exists>p q.
                    toLowerCase (case description m of None \<Rightarrow> [] | Some d \<Rightarrow> d)
                      = p @ toLowerCase w @ q})
              + tagMatches ws m) \<and>
         0 \<le> tagMatches ws m \<and>
         (tagMatches ws m = 0 \<longleftrightarrow>
            \<not> (\<exists>w\<in>set ws. \<exists>t\<in>set (tags m). \<exists>p q. toLowerCase t = p @ toLowerCase w @ q))"
proof -
  define P where "P = (\<lambda>w. \<exists>p q.
     toLowerCase (case description m of None \<Rightarrow> [] | Some d \<Rightarrow> d) = p @ toLowerCase w @ q)"
  have r: "relevanceScore ws m = 2 * int (length (filter P ws)) + tagMatches ws m"
    using descriptionMatches_count[OF assms, of m] by (simp add: relevanceScore_def P_def)
  have a: "length (filter P ws) = card {i. i < length ws \<and> P (ws ! i)}"
    by (rule length_filter_conv_card)
  have b: "length (filter P ws) = card {w \<in> set ws. P w}" if "distinct ws"
  proof -
    have "{w \<in> set ws. P w} = {x. P x} \<inter> set ws" by auto
    with distinct_length_filter[OF that, of P] show ?thesis by simp
  qed
  have c: "0 \<le> tagMatches ws m" by (simp add: tagMatches_def)
  from r a b c tagMatches_zero_iff[of ws m] show ?thesis
    unfolding P_def by simp
qed

text \<open>
  The query \<open>cat cat\<close> scores a description that mentions a cat with 4, not 2; the
  query \<open>cat\<close> scores the tags \<open>cat\<close>, \<open>cats\<close> with 2, not 1.
\<close>

theorem relevanceScore_differs_from_wording:
  "relevanceScore (searchWordsOf ''cat cat'')
      (sampleMeme ''m1'' [''funny''] ''a cat meme'' 0 0 1000) = 4 \<and>
   spec_relevanceScore (searchWordsOf ''cat cat'')
      (sampleMeme ''m1'' [''funny''] ''a cat meme'' 0 0 1000) = 2 \<and>
   relevanceScore (searchWordsOf ''cat'')
      (sampleMeme ''m2'' [''cat'', ''cats''] ''a meme'' 0 0 2000) = 2 \<and>
   spec_relevanceScore (searchWordsOf ''cat'')
      (sampleMeme ''m2'' [''cat'', ''cats''] ''a meme'' 0 0 2000) = 1"
  by code_simp

theorem relevanceScore_counts_witness:
  "[] \<notin> set (searchWordsOf ''pointing choices'') \<and>
   distinct (searchWordsOf ''pointing choices'') \<and>
   relevanceScore (searchWordsOf ''pointing choices'') scenarioR1 = 4 \<and>
   relevanceScore (searchWordsOf ''pointing choices'') scenarioR2 = 2 \<and>
   tagMatches (searchWordsOf ''pointing choices'') scenarioR1 = 0 \<and>
   card {w \<in> set (searchWordsOf ''pointing choices''). \<exists>p q.
           toLowerCase (case description scenarioR1 of None \<Rightarrow> [] | Some d \<Rightarrow> d)
             = p @ toLowerCase w @ q} = 2"
proof -
  have n: "[] \<notin> set (searchWordsOf ''pointing choices'')" by code_simp
  have d: "distinct (searchWordsOf ''pointing choices'')" by code_simp
  have r1: "relevanceScore (searchWordsOf ''pointing choices'') scenarioR1 = 4" by code_simp
  have r2: "relevanceScore (searchWordsOf ''pointing choices'') scenarioR2 = 2" by code_simp
  have t: "tagMatches (searchWordsOf ''pointing choices'') scenarioR1 = 0" by code_simp
  from relevanceScore_counts[OF n, of scenarioR1] d r1 t
  have "card {w \<in> set (searchWordsOf ''pointing choices''). \<exists>p q.
           toLowerCase (case description scenarioR1 of None \<Rightarrow> [] | Some d \<Rightarrow> d)
             = p @ toLowerCase w @ q} = 2"
    by simp
  with n d r1 r2 t show ?thesis by (intro conjI)
qed


section \<open>Pagination\<close>






















text \<open>
  Claim C1. With the documents of the specification's search scenario and one item
  per page, the handler's first page holds the more recent document, whose score is 2,
  and its second page the document whose score is 4; the slices of the full ranking
  are the other way round.
\<close>

theorem search_pages_before_ranking:
  "(case search wordsRegExp [scenarioR1, scenarioR2] (Some ''pointing choices'') (Some 1) (Some 1) of
      (Json body, ops) \<Rightarrow> map (\<lambda>h. (meme_id h, relevance h)) (memes body)
    | (Status code msg, ops) \<Rightarrow> []) = [(''64f1a2b3c4d5e6f7a8b9c0d2'', 2)] \<and>
   (case search wordsRegExp [scenarioR1, scenarioR2] (Some ''pointing choices'') (Some 2) (Some 1) of
      (Json body, ops) \<Rightarrow> map (\<lambda>h. (meme_id h, relevance h)) (memes body)
    | (Status code msg, ops) \<Rightarrow> []) = [(''64f1a2b3c4d5e6f7a8b9c0d1'', 4)] \<and>
   map (\<lambda>h. (meme_id h, relevance h))
     (spec_search_page (wordsTest ''pointing|choices'') [''pointing'', ''choices'']
        [scenarioR1, scenarioR2] 0 1) = [(''64f1a2b3c4d5e6f7a8b9c0d1'', 4)] \<and>
   map (\<lambda>h. (meme_id h, relevance h))
     (spec_search_page (wordsTest ''pointing|choices'') [''pointing'', ''choices'']
        [scenarioR1, scenarioR2] 1 1) = [(''64f1a2b3c4d5e6f7a8b9c0d2'', 2)]"
  by code_simp

end
